theory Spec2Isabelle
  imports Complex_Main "HOL-Library.Char_ord" "HOL-Library.List_Lexorder" "HOL-Library.Sublist"
begin

section \<open>MTG-Link: a shallow embedding of \<^verbatim>\<open>mtglink.py\<close>\<close>

text \<open>
  The script fills the gaps of a GFA assembly graph. For every gap line the function
  \<^verbatim>\<open>gapfilling\<close> collects the barcodes of both flanking chunks, extracts their reads,
  and then sweeps the k-mer sizes and the abundance thresholds, calling MindTheGap at
  every pair and grading the inserted sequences it finds. The external tools (BamExtractor,
  MindTheGap, the alignment statistics) and the file system are an explicit environment;
  Python's local variables that may still be unbound are \<open>option\<close> fields of the state,
  and every exception is a value.
\<close>

subsection \<open>Python values\<close>

datatype error =
    UnboundLocalError string
  | FileNotFoundError
  | IndexError
  | ValueError

text \<open>How the body of a loop ends: it falls through, it breaks, or it raises.\<close>

datatype flow = Next | Break | Raised error

text \<open>\<^verbatim>\<open>needle in haystack\<close> on strings is the contiguous-substring test.\<close>

definition py_in :: "string \<Rightarrow> string \<Rightarrow> bool" where
  "py_in needle haystack = sublist needle haystack"

text \<open>\<^verbatim>\<open>min(xs)\<close> on a list of integers raises ValueError on the empty list.\<close>

fun py_min :: "int list \<Rightarrow> error + int" where
  "py_min [] = Inl ValueError"
| "py_min (x # xs) = Inr (fold min xs x)"

text \<open>\<^verbatim>\<open>xs[i:]\<close>: a negative start counts from the end and is clamped at the front.\<close>

definition py_slice_from :: "'a list \<Rightarrow> int \<Rightarrow> 'a list" where
  "py_slice_from xs i =
     (if 0 \<le> i then drop (nat i) xs else drop (length xs - nat (- i)) xs)"

subsection \<open>The union of the barcodes (lines 194 to 211)\<close>

text \<open>
  \<^verbatim>\<open>barcodes_occ\<close> is a dictionary from barcode to number of occurrences; a Python
  dictionary keeps its keys in insertion order, so it is an association list here.
\<close>

type_synonym barcodes_occ = "(string \<times> nat) list"

text \<open>
  Modelled from the spec: \<^verbatim>\<open>extract_barcodes\<close> is defined in \<^verbatim>\<open>helpers.py\<close>, which is
  not among the sources. The spec (EvidenceUnionBuilder) says: accumulate occurrence counts
  per barcode across both region calls into one mapping. The region is given as the list
  of barcodes observed on it, one entry per observation.
\<close>

fun count_barcode :: "string \<Rightarrow> barcodes_occ \<Rightarrow> barcodes_occ" where
  "count_barcode b [] = [(b, 1)]"
| "count_barcode b ((key, n) # occ) =
     (if key = b then (key, n + 1) # occ else (key, n) # count_barcode b occ)"

definition extract_barcodes :: "string list \<Rightarrow> barcodes_occ \<Rightarrow> barcodes_occ" where
  "extract_barcodes region barcodes_occ = fold count_barcode region barcodes_occ"

text \<open>
  Lines 207 to 211: the lines written to the union barcodes file, one barcode per line,
  for the items whose number of occurrences is at least \<^verbatim>\<open>args.freq\<close>.
\<close>

definition union_barcodes :: "int \<Rightarrow> barcodes_occ \<Rightarrow> string list" where
  "union_barcodes freq barcodes_occ =
     map fst (filter (\<lambda>(barcode, occurences). freq \<le> int occurences) barcodes_occ)"

subsection \<open>The summary of the union (lines 229 to 231)\<close>

text \<open>
  \<^verbatim>\<open>rbxu = sum(1 for line in open(union_reads_file)) / 4\<close>. In Python 3 the operator
  \<^verbatim>\<open>/\<close> on two integers is true division: the result is the binary64 float nearest to
  the exact quotient, ties to even. A float is modelled by the rational it denotes. The
  divisor is a power of two, so the quotient has the significand of the dividend: it is
  exact when the dividend has at most 53 bits, and otherwise the dividend is first rounded
  to 53 significant bits.
\<close>

fun bit_length :: "nat \<Rightarrow> nat" where
  "bit_length n = (if n = 0 then 0 else Suc (bit_length (n div 2)))"

definition round_half_even :: "nat \<Rightarrow> nat \<Rightarrow> nat" where
  "round_half_even n s =
     (let q = n div 2 ^ s; r = n mod 2 ^ s
      in if 2 * r < 2 ^ s then q
         else if 2 ^ s < 2 * r then q + 1
         else if even q then q else q + 1)"

definition truediv_pow2 :: "nat \<Rightarrow> nat \<Rightarrow> rat" where
  "truediv_pow2 n e =
     (if bit_length n \<le> 53 then of_nat n / 2 ^ e
      else let s = bit_length n - 53
           in of_nat (round_half_even n s * 2 ^ s) / 2 ^ e)"

definition rbxu_of :: "nat \<Rightarrow> rat" where
  "rbxu_of n_lines = truediv_pow2 n_lines 2"

record union_summary =
  s_identity :: string
  s_left :: string
  s_right :: string
  s_length :: int
  s_chunk :: int
  s_bxu :: nat
  s_rbxu :: rat

subsection \<open>Regular expressions of the acceptance tests (lines 422 and 467)\<close>

text \<open>
  The fragment of Python's \<^verbatim>\<open>re\<close> the script uses: \<^verbatim>\<open>^\<close>, \<^verbatim>\<open>$\<close>, a literal character, a
  character class and \<^verbatim>\<open>.*\<close>. \<^verbatim>\<open>re.match\<close> looks for a match that starts at the
  beginning of the string and may end anywhere; \<^verbatim>\<open>.\<close> is any character but a newline;
  \<^verbatim>\<open>$\<close> holds at the end of the string and just before a final newline. The flag says
  whether the position is the start of the string.
\<close>

datatype rx = Bol | Eol | Lit char | Cls "char list" | DotStar

fun rx_match :: "rx list \<Rightarrow> bool \<Rightarrow> string \<Rightarrow> bool" where
  "rx_match [] at_start s = True"
| "rx_match (Bol # ps) at_start s = (at_start \<and> rx_match ps at_start s)"
| "rx_match (Eol # ps) at_start s = ((s = [] \<or> s = [CHR 0x0A]) \<and> rx_match ps at_start s)"
| "rx_match (Lit c # ps) at_start [] = False"
| "rx_match (Lit c # ps) at_start (x # xs) = (x = c \<and> rx_match ps False xs)"
| "rx_match (Cls cs # ps) at_start [] = False"
| "rx_match (Cls cs # ps) at_start (x # xs) = (x \<in> set cs \<and> rx_match ps False xs)"
| "rx_match (DotStar # ps) at_start [] = rx_match ps at_start []"
| "rx_match (DotStar # ps) at_start (x # xs) =
     (rx_match ps at_start (x # xs) \<or> (x \<noteq> CHR 0x0A \<and> rx_match (DotStar # ps) False xs))"

definition re_match :: "rx list \<Rightarrow> string \<Rightarrow> bool" where
  "re_match pattern s = rx_match pattern True s"

text \<open>\<^verbatim>\<open>'^.*Quality [AB]{2}$'\<close>, \<^verbatim>\<open>'^.*Quality A[AB]{2}$'\<close> and \<^verbatim>\<open>'^.*Quality BA[AB]$'\<close>.\<close>

definition pattern_ref :: "rx list" where
  "pattern_ref = [Bol, DotStar] @ map Lit ''Quality '' @ [Cls ''AB'', Cls ''AB'', Eol]"

definition pattern_flank_A :: "rx list" where
  "pattern_flank_A = [Bol, DotStar] @ map Lit ''Quality A'' @ [Cls ''AB'', Cls ''AB'', Eol]"

definition pattern_flank_BA :: "rx list" where
  "pattern_flank_BA = [Bol, DotStar] @ map Lit ''Quality BA'' @ [Cls ''AB'', Eol]"

subsection \<open>The quality of one gap-filled sequence (lines 385 to 475)\<close>

text \<open>A record of the insertions file as \<^verbatim>\<open>SeqIO.parse\<close> yields it at line 385.\<close>

record fasta_record =
  rec_id :: string
  rec_seq :: string

text \<open>The columns of the two alignment statistics files that the script reads.\<close>

record ref_row =
  r_Solution :: string
  r_Strand :: string
  r_Ref :: string
  r_Quality :: string

record qry_row =
  q_Solution1 :: string
  q_Solution2 :: string
  q_Quality :: string

text \<open>Line 388: \<^verbatim>\<open>strand = str(record.id).split('_')[0][-1]\<close>.\<close>

definition strand_of :: "string \<Rightarrow> error + char" where
  "strand_of rid =
     (case takeWhile (\<lambda>c. c \<noteq> CHR ''_'') rid of
        [] \<Rightarrow> Inl IndexError
      | c # cs \<Rightarrow> Inr (last (c # cs)))"

text \<open>\<^verbatim>\<open>record.id.split('_')[-1]\<close>.\<close>

definition last_token :: "string \<Rightarrow> string" where
  "last_token rid = rev (takeWhile (\<lambda>c. c \<noteq> CHR ''_'') (rev rid))"

text \<open>
  Lines 443 to 446 and 461: an empty list of grades gets \<^verbatim>\<open>'D'\<close> appended, then
  \<^verbatim>\<open>min\<close> takes the least string of the list (strings compare lexicographically).
\<close>

fun min_grade :: "string list \<Rightarrow> string" where
  "min_grade [] = ''D''"
| "min_grade (q # qs) = fold min qs q"

definition ref_row_matches :: "string \<Rightarrow> ref_row \<Rightarrow> bool" where
  "ref_row_matches rid row =
     (py_in (r_Solution row) rid \<and>
      ((py_in ''bkpt1'' rid \<and> r_Strand row = ''fwd'') \<or>
       (py_in ''bkpt2'' rid \<and> r_Strand row = ''rev'')))"

definition revcomp_row_matches :: "string \<Rightarrow> qry_row \<Rightarrow> bool" where
  "revcomp_row_matches rid row =
     ((py_in (last_token rid) (q_Solution1 row) \<and>
       ((py_in ''bkpt1'' rid \<and> py_in ''fwd'' (q_Solution1 row)) \<or>
        (py_in ''bkpt2'' rid \<and> py_in ''rev'' (q_Solution1 row)))) \<or>
      (py_in (last_token rid) (q_Solution2 row) \<and>
       ((py_in ''bkpt1'' rid \<and> py_in ''fwd'' (q_Solution2 row)) \<or>
        (py_in ''bkpt2'' rid \<and> py_in ''rev'' (q_Solution2 row)))))"

definition quality_revcomp :: "string \<Rightarrow> qry_row list \<Rightarrow> string list" where
  "quality_revcomp rid rows = map q_Quality (filter (revcomp_row_matches rid) rows)"

text \<open>Reference mode, lines 395 to 418.\<close>

definition quality_ref :: "string \<Rightarrow> ref_row list \<Rightarrow> string list" where
  "quality_ref rid rows = map r_Quality (filter (ref_row_matches rid) rows)"

definition description_ref :: "string \<Rightarrow> ref_row list \<Rightarrow> qry_row list \<Rightarrow> string" where
  "description_ref rid ref_rows qry_rows =
     ''Quality '' @ min_grade (quality_ref rid ref_rows)
                  @ min_grade (quality_revcomp rid qry_rows)"

text \<open>Flank mode, lines 436 to 463: the \<^verbatim>\<open>elif\<close> gives the left flank precedence.\<close>

definition quality_ext_left :: "string \<Rightarrow> string \<Rightarrow> ref_row list \<Rightarrow> string list" where
  "quality_ext_left left_name rid rows =
     map r_Quality (filter (\<lambda>row. ref_row_matches rid row \<and> r_Ref row = left_name) rows)"

definition quality_ext_right :: "string \<Rightarrow> string \<Rightarrow> string \<Rightarrow> ref_row list \<Rightarrow> string list" where
  "quality_ext_right left_name right_name rid rows =
     map r_Quality
       (filter (\<lambda>row. \<not> (ref_row_matches rid row \<and> r_Ref row = left_name) \<and>
                      ref_row_matches rid row \<and> r_Ref row = right_name) rows)"

definition description_flank ::
  "string \<Rightarrow> string \<Rightarrow> string \<Rightarrow> ref_row list \<Rightarrow> qry_row list \<Rightarrow> string" where
  "description_flank left_name right_name rid ref_rows qry_rows =
     ''Quality '' @ min_grade (quality_ext_left left_name rid ref_rows)
                  @ min_grade (quality_ext_right left_name right_name rid ref_rows)
                  @ min_grade (quality_revcomp rid qry_rows)"

text \<open>The tests of lines 422 and 467 on the sequence and the description.\<close>

definition accept_ref :: "int \<Rightarrow> string \<Rightarrow> string \<Rightarrow> bool" where
  "accept_ref ext sq description =
     (2 * ext < int (length sq) \<and> re_match pattern_ref description)"

definition accept_flank :: "int \<Rightarrow> string \<Rightarrow> string \<Rightarrow> bool" where
  "accept_flank ext sq description =
     (2 * ext < int (length sq) \<and>
      (re_match pattern_flank_A description \<or> re_match pattern_flank_BA description))"

subsection \<open>The arguments, the environment of one gap, and the local variables\<close>

text \<open>
  The command line (\<^verbatim>\<open>args\<close>). \<^verbatim>\<open>refDir\<close> is the listing of the reference directory
  when one was given: every entry with the answer of \<^verbatim>\<open>os.path.isfile\<close> on it.
\<close>

record args =
  kmer :: "int list"
  abundance_threshold :: "int list"
  force :: bool
  freq :: int
  ext :: int
  chunk :: int
  refDir :: "(string \<times> bool) list option"
  line :: "int option"

text \<open>
  What one call of \<^verbatim>\<open>gapfilling\<close> reads from outside: the gap line and its fields, the
  barcodes BamExtractor reports on both chunks, the number of lines of the union reads
  file, and the files the external tools leave behind. \<open>insertions k a\<close> is the file
  \<^verbatim>\<open><output>.insertions.fasta\<close> after \<^verbatim>\<open>mtg_fill\<close> ran with \<open>k\<close> and \<open>a\<close>: \<open>None\<close> when
  there is no such file, otherwise its size in bytes and the records it holds.
  \<open>stats_files k a\<close> are the rows of the two statistics files written by \<^verbatim>\<open>stats_align\<close>
  under the prefix of \<open>k\<close> and \<open>a\<close>, \<open>None\<close> for a file that does not exist.
  \<^verbatim>\<open>get_output_for_gfa\<close> is a function of \<^verbatim>\<open>helpers.py\<close>, taken as a parameter.
\<close>

record gap_env =
  gap_line :: string
  gap_label :: string
  gap_identity :: string
  gap_left :: string
  gap_right :: string
  gap_length :: int
  left_name :: string
  right_name :: string
  left_barcodes :: "string list"
  right_barcodes :: "string list"
  reads_lines :: nat
  insertions :: "int \<Rightarrow> int \<Rightarrow> (nat \<times> fasta_record list) option"
  stats_files :: "int \<Rightarrow> int \<Rightarrow> ref_row list option \<times> qry_row list option"
  get_output_for_gfa :: "fasta_record \<Rightarrow> int \<Rightarrow> string list"

text \<open>
  The reference file of line 314 or 322: an entry of the reference directory, or the
  file of the flanking contigs that the script has just written.
\<close>

datatype ref_path = RefDirEntry string bool | ContigsFile

fun isfile :: "ref_path \<Rightarrow> bool" where
  "isfile (RefDirEntry name regular) = regular"
| "isfile ContigsFile = True"

text \<open>
  The local variables of \<^verbatim>\<open>gapfilling\<close> that the sweep assigns; \<open>None\<close> is a name that
  is not bound yet. \<open>mtg_calls\<close> is the log of the calls of \<^verbatim>\<open>mtg_fill\<close> (line 290).
\<close>

record sweep_state =
  a_var :: "int option"
  ref_file :: "ref_path option"
  prefix_var :: "(int \<times> int) option"
  stats :: "bool option"
  solutions :: "string list option"
  output_for_gfa :: "string list list option"
  solution :: "bool option"
  mtg_calls :: "(int \<times> int) list"

definition initial_state :: sweep_state where
  "initial_state =
     \<lparr>a_var = None, ref_file = None, prefix_var = None, stats = None, solutions = None,
      output_for_gfa = None, solution = None, mtg_calls = []\<rparr>"

subsection \<open>One pair of k and a (lines 276 to 504)\<close>

text \<open>
  Lines 385 to 475, the loop over the records of the insertions file: \<open>check\<close> is
  appended to \<^verbatim>\<open>solutions\<close> for every record, the output of an accepted record to
  \<^verbatim>\<open>output_for_gfa\<close>. The mode is chosen by \<^verbatim>\<open>args.refDir is not None\<close>.
\<close>

definition accepted :: "args \<Rightarrow> gap_env \<Rightarrow> ref_row list \<Rightarrow> qry_row list \<Rightarrow> fasta_record \<Rightarrow> bool" where
  "accepted ar g ref_rows qry_rows r =
     (if refDir ar \<noteq> None
      then accept_ref (ext ar) (rec_seq r) (description_ref (rec_id r) ref_rows qry_rows)
      else accept_flank (ext ar) (rec_seq r)
             (description_flank (left_name g) (right_name g) (rec_id r) ref_rows qry_rows))"

fun score_records ::
  "args \<Rightarrow> gap_env \<Rightarrow> int \<Rightarrow> ref_row list \<Rightarrow> qry_row list \<Rightarrow> fasta_record list \<Rightarrow>
   string list \<times> string list list \<Rightarrow> error + (string list \<times> string list list)" where
  "score_records ar g k ref_rows qry_rows [] acc = Inr acc"
| "score_records ar g k ref_rows qry_rows (r # rs) (sols, outs) =
     (case strand_of (rec_id r) of
        Inl e \<Rightarrow> Inl e
      | Inr strand \<Rightarrow>
          if accepted ar g ref_rows qry_rows r
          then score_records ar g k ref_rows qry_rows rs
                 (sols @ [''True_'' @ [strand]], outs @ [get_output_for_gfa g r k])
          else score_records ar g k ref_rows qry_rows rs
                 (sols @ [''False_'' @ [strand]], outs))"

text \<open>
  Lines 311 to 322. With a reference directory, \<^verbatim>\<open>ref_file\<close> is assigned for every
  entry whose name contains the gap label, and line 315 reads it; the \<^verbatim>\<open>elif\<close> branch
  is reached only without a reference directory, and then writes the contigs file.
\<close>

definition locate_reference :: "args \<Rightarrow> gap_env \<Rightarrow> sweep_state \<Rightarrow> error + ref_path \<times> sweep_state" where
  "locate_reference ar g st =
     (case refDir ar of
        Some listing \<Rightarrow>
          (case fold (\<lambda>(file, regular) rf.
                        if py_in (gap_label g) file then Some (RefDirEntry file regular) else rf)
                  listing (ref_file st) of
             None \<Rightarrow> Inl (UnboundLocalError ''ref_file'')
           | Some p \<Rightarrow> Inr (p, st\<lparr>ref_file := Some p\<rparr>))
      | None \<Rightarrow> Inr (ContigsFile, st\<lparr>ref_file := Some ContigsFile\<rparr>))"

text \<open>
  Lines 355 to 485: the statistics files are looked up under \<^verbatim>\<open>prefix\<close>; when one is
  missing \<^verbatim>\<open>stats\<close> is False and nothing else is assigned, otherwise \<^verbatim>\<open>solutions\<close> and
  \<^verbatim>\<open>output_for_gfa\<close> are set to empty lists and filled from the records.
\<close>

definition read_stats ::
  "args \<Rightarrow> gap_env \<Rightarrow> int \<Rightarrow> fasta_record list \<Rightarrow> sweep_state \<Rightarrow> error + sweep_state" where
  "read_stats ar g k records st =
     (case prefix_var st of
        None \<Rightarrow> Inl (UnboundLocalError ''prefix'')
      | Some (pk, pa) \<Rightarrow>
          (case stats_files g pk pa of
             (None, _) \<Rightarrow> Inr (st\<lparr>stats := Some False\<rparr>)
           | (Some ref_rows, None) \<Rightarrow> Inr (st\<lparr>stats := Some False\<rparr>)
           | (Some ref_rows, Some qry_rows) \<Rightarrow>
               (case score_records ar g k ref_rows qry_rows records ([], []) of
                  Inl e \<Rightarrow> Inl e
                | Inr (sols, outs) \<Rightarrow>
                    Inr (st\<lparr>stats := Some True, solutions := Some sols,
                            output_for_gfa := Some outs\<rparr>))))"

text \<open>
  Line 488: \<^verbatim>\<open>(stats == True) and ("True_1" and "True_2" in solutions)\<close>. The operator
  \<^verbatim>\<open>in\<close> binds tighter than \<^verbatim>\<open>and\<close>, so the right operand is
  \<^verbatim>\<open>"True_1" and ("True_2" in solutions)\<close>, and a string is true when it is not empty.
\<close>

definition stop_test :: "sweep_state \<Rightarrow> error + bool" where
  "stop_test st =
     (case stats st of
        None \<Rightarrow> Inl (UnboundLocalError ''stats'')
      | Some False \<Rightarrow> Inr False
      | Some True \<Rightarrow>
          (if ''True_1'' \<noteq> []
           then (case solutions st of
                   None \<Rightarrow> Inl (UnboundLocalError ''solutions'')
                 | Some sols \<Rightarrow> Inr (''True_2'' \<in> set sols))
           else Inr False))"

text \<open>
  The body of the loop over the abundance thresholds, for one \<open>k\<close> and one \<open>a\<close>. The
  breakpoint file of lines 253 to 268 and the other arguments of \<^verbatim>\<open>mtg_fill\<close> (lines 279
  to 287) are written or passed on and never read again by the script, so they are not part
  of the state; what \<^verbatim>\<open>mtg_fill\<close> and \<^verbatim>\<open>stats_align\<close> do is read from the environment.
  Line 293 takes the size of the insertions file, which raises when the file is missing.
\<close>

definition evaluate :: "args \<Rightarrow> gap_env \<Rightarrow> int \<Rightarrow> int \<Rightarrow> sweep_state \<Rightarrow> flow \<times> sweep_state" where
  "evaluate ar g k a st0 =
     (let st = st0\<lparr>mtg_calls := mtg_calls st0 @ [(k, a)]\<rparr>
      in case insertions g k a of
           None \<Rightarrow> (Raised FileNotFoundError, st)
         | Some (nbytes, records) \<Rightarrow>
             if 0 < nbytes
             then (case locate_reference ar g st of
                     Inl e \<Rightarrow> (Raised e, st)
                   | Inr (p, st1) \<Rightarrow>
                       let st2 = (if \<not> isfile p then st1 else st1\<lparr>prefix_var := Some (k, a)\<rparr>)
                       in (case read_stats ar g k records st2 of
                             Inl e \<Rightarrow> (Raised e, st2)
                           | Inr st3 \<Rightarrow>
                               (case stop_test st3 of
                                  Inl e \<Rightarrow> (Raised e, st3)
                                | Inr True \<Rightarrow> (Break, st3\<lparr>solution := Some True\<rparr>)
                                | Inr False \<Rightarrow> (Next, st3\<lparr>solution := Some False\<rparr>))))
             else (Next, st\<lparr>output_for_gfa := Some [], solution := Some False\<rparr>))"

subsection \<open>The two loops (lines 245 to 517) and the result\<close>

fun a_loop :: "args \<Rightarrow> gap_env \<Rightarrow> int \<Rightarrow> int list \<Rightarrow> sweep_state \<Rightarrow> flow \<times> sweep_state" where
  "a_loop ar g k [] st = (Next, st)"
| "a_loop ar g k (a # as) st =
     (case evaluate ar g k a (st\<lparr>a_var := Some a\<rparr>) of
        (Next, st') \<Rightarrow> a_loop ar g k as st'
      | (Break, st') \<Rightarrow> (Next, st')
      | (Raised e, st') \<Rightarrow> (Raised e, st'))"

text \<open>
  Lines 507 to 517, after the loop over the abundance thresholds. The \<^verbatim>\<open>and\<close> of line
  513 reads \<^verbatim>\<open>a\<close> only when \<^verbatim>\<open>k == min(args.kmer)\<close> holds.
\<close>

definition after_a_loop :: "args \<Rightarrow> gap_env \<Rightarrow> int \<Rightarrow> sweep_state \<Rightarrow> flow \<times> sweep_state" where
  "after_a_loop ar g k st =
     (case solution st of
        None \<Rightarrow> (Raised (UnboundLocalError ''solution''), st)
      | Some sol \<Rightarrow>
          if sol \<and> \<not> force ar then (Break, st)
          else (case py_min (kmer ar) of
                  Inl e \<Rightarrow> (Raised e, st)
                | Inr min_k \<Rightarrow>
                    if k = min_k
                    then (case a_var st of
                            None \<Rightarrow> (Raised (UnboundLocalError ''a''), st)
                          | Some a \<Rightarrow>
                              (case py_min (abundance_threshold ar) of
                                 Inl e \<Rightarrow> (Raised e, st)
                               | Inr min_a \<Rightarrow>
                                   if a = min_a
                                   then (case output_for_gfa st of
                                           None \<Rightarrow> (Raised (UnboundLocalError ''output_for_gfa''), st)
                                         | Some out \<Rightarrow>
                                             if length out = 0
                                             then (Next, st\<lparr>output_for_gfa := Some (out @ [[gap_line g]])\<rparr>)
                                             else (Next, st))
                                   else (Next, st)))
                    else (Next, st)))"

fun k_loop :: "args \<Rightarrow> gap_env \<Rightarrow> int list \<Rightarrow> sweep_state \<Rightarrow> flow \<times> sweep_state" where
  "k_loop ar g [] st = (Next, st)"
| "k_loop ar g (k # ks) st =
     (case a_loop ar g k (abundance_threshold ar) st of
        (Raised e, st') \<Rightarrow> (Raised e, st')
      | (_, st') \<Rightarrow>
          (case after_a_loop ar g k st' of
             (Next, st'') \<Rightarrow> k_loop ar g ks st''
           | (Break, st'') \<Rightarrow> (Next, st'')
           | (Raised e, st'') \<Rightarrow> (Raised e, st'')))"

definition sweep :: "args \<Rightarrow> gap_env \<Rightarrow> flow \<times> sweep_state" where
  "sweep ar g = k_loop ar g (kmer ar) initial_state"

text \<open>Lines 195 to 231: the union of the barcodes and its summary.\<close>

definition union_file :: "args \<Rightarrow> gap_env \<Rightarrow> string list" where
  "union_file ar g =
     union_barcodes (freq ar)
       (extract_barcodes (right_barcodes g) (extract_barcodes (left_barcodes g) []))"

definition summary_of :: "args \<Rightarrow> gap_env \<Rightarrow> union_summary" where
  "summary_of ar g =
     \<lparr>s_identity = gap_identity g, s_left = gap_left g, s_right = gap_right g,
      s_length = gap_length g, s_chunk = chunk ar,
      s_bxu = length (union_file ar g), s_rbxu = rbxu_of (reads_lines g)\<rparr>"

text \<open>
  \<^verbatim>\<open>gapfilling\<close> returns \<^verbatim>\<open>union_summary, output_for_gfa\<close> (line 527), or raises.
\<close>

definition gapfilling :: "args \<Rightarrow> gap_env \<Rightarrow> error + union_summary \<times> string list list" where
  "gapfilling ar g =
     (case sweep ar g of
        (Raised e, st) \<Rightarrow> Inl e
      | (_, st) \<Rightarrow>
          (case output_for_gfa st of
             None \<Rightarrow> Inl (UnboundLocalError ''output_for_gfa'')
           | Some out \<Rightarrow> Inr (summary_of ar g, out)))"

subsection \<open>The output graph and the scheduler (lines 533 to 612)\<close>

text \<open>
  A GFA file is the list of its lines; the record type of a line is its first
  tab-separated field. \<^verbatim>\<open>gfa.lines\<close> are all the lines, \<^verbatim>\<open>gfa.gaps\<close> the \<^verbatim>\<open>G\<close> lines and
  \<^verbatim>\<open>gfa.segments\<close> the \<^verbatim>\<open>S\<close> lines.
\<close>

definition record_type :: "string \<Rightarrow> string" where
  "record_type l = takeWhile (\<lambda>c. c \<noteq> CHR 0x09) l"

definition gaps :: "string list \<Rightarrow> string list" where
  "gaps gfa = filter (\<lambda>l. record_type l = ''G'') gfa"

definition segments :: "string list \<Rightarrow> string list" where
  "segments gfa = filter (\<lambda>l. record_type l = ''S'') gfa"

definition header_line :: string where
  "header_line = ''H'' @ [CHR 0x09] @ ''VN:Z:2.0''"

text \<open>
  The output file holds lines, and what \<^verbatim>\<open>update_gfa_with_solution\<close> adds for one
  accepted solution.

  Modelled from the spec: \<^verbatim>\<open>update_gfa_with_solution\<close> is defined in \<^verbatim>\<open>helpers.py\<close>,
  which is not among the sources. The spec (GraphStore) says that the graph accepts new
  edge records for accepted solutions: the call adds the records of one solution to the
  output file.
\<close>

datatype gfa_entry = Line string | Gapfill "string list"

definition update_gfa_with_solution ::
  "string list \<Rightarrow> gfa_entry list option \<Rightarrow> gfa_entry list option" where
  "update_gfa_with_solution output f =
     Some ((case f of None \<Rightarrow> [] | Some es \<Rightarrow> es) @ [Gapfill output])"

record run_state =
  out_gfa_file :: "gfa_entry list option"
  union_sum :: "union_summary list"
  success :: "bool option"
  tasks :: "string list"

text \<open>Lines 581 to 595, the loop over the results of the pool.\<close>

fun write_results :: "(union_summary \<times> string list list) list \<Rightarrow> run_state \<Rightarrow> error + run_state" where
  "write_results [] rs = Inr rs"
| "write_results ((summary, outs) # rest) rs0 =
     (let rs = rs0\<lparr>union_sum := union_sum rs0 @ [summary]\<rparr>
      in case outs of
           [] \<Rightarrow> Inl IndexError
         | first # _ \<Rightarrow>
             if 1 < length first
             then write_results rest
                    (rs\<lparr>out_gfa_file := fold update_gfa_with_solution outs (out_gfa_file rs),
                        success := Some True\<rparr>)
             else (case out_gfa_file rs of
                     None \<Rightarrow> Inl FileNotFoundError
                   | Some es \<Rightarrow>
                       (case first of
                          [] \<Rightarrow> Inl IndexError
                        | l # _ \<Rightarrow>
                            write_results rest
                              (rs\<lparr>out_gfa_file := Some (es @ [Line l]),
                                  success := Some False\<rparr>))))"

text \<open>\<^verbatim>\<open>p.map(gapfilling, gaps)\<close>: an exception of a task is raised again in the caller.\<close>

fun pool_map :: "('a \<Rightarrow> error + 'b) \<Rightarrow> 'a list \<Rightarrow> error + 'b list" where
  "pool_map f [] = Inr []"
| "pool_map f (x # xs) =
     (case f x of
        Inl e \<Rightarrow> Inl e
      | Inr y \<Rightarrow> (case pool_map f xs of Inl e \<Rightarrow> Inl e | Inr ys \<Rightarrow> Inr (y # ys)))"

text \<open>
  The \<^verbatim>\<open>try\<close> block of lines 533 to 612: it ends normally, or the handler of line 606
  prints the exception and calls \<^verbatim>\<open>sys.exit(1)\<close>. \<open>envs\<close> gives the environment of
  every gap line.
\<close>

datatype outcome = Completed run_state | Exit1 error

definition main_try :: "args \<Rightarrow> string list \<Rightarrow> (string \<Rightarrow> gap_env) \<Rightarrow> outcome" where
  "main_try ar gfa envs =
     (let f1 = (if length (gaps gfa) = 0 then Some (map Line gfa) else None);
          f2 = (if line ar = None then Some (Line header_line # map Line (segments gfa)) else f1);
          gs = (case line ar of
                  Some n \<Rightarrow> py_slice_from (gaps gfa) (n - (int (length (segments gfa)) + 2))
                | None \<Rightarrow> gaps gfa);
          rs = \<lparr>out_gfa_file = f2, union_sum = [], success = None, tasks = gs\<rparr>
      in case pool_map (\<lambda>gl. gapfilling ar (envs gl)) gs of
           Inl e \<Rightarrow> Exit1 e
         | Inr results \<Rightarrow>
             (case write_results results rs of
                Inl e \<Rightarrow> Exit1 e
              | Inr rs' \<Rightarrow> Completed rs'))"

section \<open>Predicates of the statements\<close>

text \<open>
  The two strand flags read off \<^verbatim>\<open>solutions\<close>: an accepted candidate of strand 1
  (\<^verbatim>\<open>bkpt1\<close>, forward) leaves \<^verbatim>\<open>"True_1"\<close> in the list, one of strand 2 (\<^verbatim>\<open>bkpt2\<close>, reverse)
  leaves \<^verbatim>\<open>"True_2"\<close>.
\<close>

definition forward_flag :: "sweep_state \<Rightarrow> bool" where
  "forward_flag st = (case solutions st of None \<Rightarrow> False | Some sols \<Rightarrow> ''True_1'' \<in> set sols)"

definition reverse_flag :: "sweep_state \<Rightarrow> bool" where
  "reverse_flag st = (case solutions st of None \<Rightarrow> False | Some sols \<Rightarrow> ''True_2'' \<in> set sols)"

text \<open>The string \<^verbatim>\<open>check\<close> of lines 423 and 428 (or 468 and 474) for one record.\<close>

definition check_of :: "args \<Rightarrow> gap_env \<Rightarrow> ref_row list \<Rightarrow> qry_row list \<Rightarrow> fasta_record \<Rightarrow> string" where
  "check_of ar g ref_rows qry_rows r =
     (if accepted ar g ref_rows qry_rows r then ''True_'' else ''False_'') @
     (case strand_of (rec_id r) of Inl e \<Rightarrow> [] | Inr strand \<Rightarrow> [strand])"

text \<open>
  The calls of \<^verbatim>\<open>mtg_fill\<close> go down: from one pair to any later one, \<open>k\<close> decreases, or
  \<open>k\<close> stays and \<open>a\<close> decreases.
\<close>

definition visits_descending :: "(int \<times> int) list \<Rightarrow> bool" where
  "visits_descending calls =
     sorted_wrt (\<lambda>(k, a) (k', a'). k' < k \<or> (k' = k \<and> a' < a)) calls"


section \<open>Example inputs\<close>

text \<open>The default command line, with a chunk size of 5000.\<close>

definition default_args :: args where
  "default_args =
     \<lparr>kmer = [51, 41, 31, 21], abundance_threshold = [3, 2], force = False, freq = 2,
      ext = 500, chunk = 5000, refDir = None, line = None\<rparr>"

text \<open>
  A gap between the segments \<open>s1\<close> and \<open>s2\<close> for which MindTheGap leaves an empty
  insertions file at every pair.
\<close>

definition example_gap_line :: string where
  "example_gap_line =
     ''G'' @ [CHR 0x09] @ ''g1'' @ [CHR 0x09] @ ''s1+'' @ [CHR 0x09] @ ''s2+'' @ [CHR 0x09] @
     ''1000'' @ [CHR 0x09] @ ''*''"

definition example_gap :: gap_env where
  "example_gap =
     \<lparr>gap_line = example_gap_line,
      gap_label = ''s1+_s2+'', gap_identity = ''g1'', gap_left = ''s1+'', gap_right = ''s2+'',
      gap_length = 1000, left_name = ''s1'', right_name = ''s2'',
      left_barcodes = [''b1'', ''b2'', ''b1'', ''b1''], right_barcodes = [''b1''],
      reads_lines = 10,
      insertions = (\<lambda>k a. Some (0, [])),
      stats_files = (\<lambda>k a. (None, None)),
      get_output_for_gfa = (\<lambda>r k. [rec_id r, rec_seq r])\<rparr>"

text \<open>
  One forward and one reverse candidate of 1001 bases, and statistics files in which
  every row of the candidate has the given grade.
\<close>

definition fwd_record :: fasta_record where
  "fwd_record = \<lparr>rec_id = ''bkpt1_sol_1/1'', rec_seq = replicate 1001 (CHR ''A'')\<rparr>"

definition rev_record :: fasta_record where
  "rev_record = \<lparr>rec_id = ''bkpt2_sol_1/1'', rec_seq = replicate 1001 (CHR ''A'')\<rparr>"

definition ref_rows_of :: "string \<Rightarrow> string \<Rightarrow> ref_row list" where
  "ref_rows_of strand grade =
     [\<lparr>r_Solution = ''sol_1/1'', r_Strand = strand, r_Ref = ''s1'', r_Quality = grade\<rparr>,
      \<lparr>r_Solution = ''sol_1/1'', r_Strand = strand, r_Ref = ''s2'', r_Quality = grade\<rparr>]"

definition qry_rows_of :: "string \<Rightarrow> string \<Rightarrow> qry_row list" where
  "qry_rows_of strand grade =
     [\<lparr>q_Solution1 = strand @ ''_1/1'', q_Solution2 = strand @ ''_1/1'', q_Quality = grade\<rparr>]"

text \<open>At the pair (51, 3) only a reverse candidate, of grade AAA; nothing elsewhere.\<close>

definition reverse_only_gap :: gap_env where
  "reverse_only_gap =
     example_gap
       \<lparr>insertions := (\<lambda>k a. if k = 51 \<and> a = 3 then Some (1100, [rev_record]) else Some (0, [])),
        stats_files := (\<lambda>k a. if k = 51 \<and> a = 3
                            then (Some (ref_rows_of ''rev'' ''A''), Some (qry_rows_of ''rev'' ''A''))
                            else (None, None))\<rparr>"

text \<open>At the pair (51, 3) only a forward candidate, of grade AAA; nothing elsewhere.\<close>

definition forward_only_gap :: gap_env where
  "forward_only_gap =
     example_gap
       \<lparr>insertions := (\<lambda>k a. if k = 51 \<and> a = 3 then Some (1100, [fwd_record]) else Some (0, [])),
        stats_files := (\<lambda>k a. if k = 51 \<and> a = 3
                            then (Some (ref_rows_of ''fwd'' ''A''), Some (qry_rows_of ''fwd'' ''A''))
                            else (None, None))\<rparr>"

text \<open>
  A forward candidate of grade AAA at the pair (51, 3), and a forward candidate of grade
  CCC at the pair (51, 2).
\<close>

definition forward_then_rejected_gap :: gap_env where
  "forward_then_rejected_gap =
     example_gap
       \<lparr>insertions := (\<lambda>k a. if k = 51 then Some (1100, [fwd_record]) else Some (0, [])),
        stats_files := (\<lambda>k a. if k = 51 \<and> a = 3
                            then (Some (ref_rows_of ''fwd'' ''A''), Some (qry_rows_of ''fwd'' ''A''))
                            else if k = 51
                            then (Some (ref_rows_of ''fwd'' ''C''), Some (qry_rows_of ''fwd'' ''C''))
                            else (None, None))\<rparr>"



text \<open>
  Statistics rows of the forward candidate with one grade on the left flank \<open>s1\<close> and one
  on the right flank \<open>s2\<close>.
\<close>

definition graded_ref_rows :: "string \<Rightarrow> string \<Rightarrow> ref_row list" where
  "graded_ref_rows left_grade right_grade =
     [\<lparr>r_Solution = ''sol_1/1'', r_Strand = ''fwd'', r_Ref = ''s1'', r_Quality = left_grade\<rparr>,
      \<lparr>r_Solution = ''sol_1/1'', r_Strand = ''fwd'', r_Ref = ''s2'', r_Quality = right_grade\<rparr>]"

text \<open>A candidate at every pair, and no statistics file at all.\<close>

definition no_stats_gap :: gap_env where
  "no_stats_gap = example_gap\<lparr>insertions := (\<lambda>k a. Some (1100, [fwd_record]))\<rparr>"

text \<open>A graph of two segments and the gap between them, and one with an edge and no gap.\<close>

definition example_gfa :: "string list" where
  "example_gfa =
     [header_line, ''S'' @ [CHR 0x09] @ ''s1'' @ [CHR 0x09] @ ''4'' @ [CHR 0x09] @ ''ACGT'',
      ''S'' @ [CHR 0x09] @ ''s2'' @ [CHR 0x09] @ ''4'' @ [CHR 0x09] @ ''TTGA'',
      example_gap_line]"

definition edge_line :: string where
  "edge_line =
     ''E'' @ [CHR 0x09] @ ''e1'' @ [CHR 0x09] @ ''s1+'' @ [CHR 0x09] @ ''s2+'' @ [CHR 0x09] @
     ''2'' @ [CHR 0x09] @ ''4$'' @ [CHR 0x09] @ ''0'' @ [CHR 0x09] @ ''2'' @ [CHR 0x09] @ ''*''"

definition no_gap_gfa :: "string list" where
  "no_gap_gfa =
     [header_line, ''S'' @ [CHR 0x09] @ ''s1'' @ [CHR 0x09] @ ''4'' @ [CHR 0x09] @ ''ACGT'',
      ''S'' @ [CHR 0x09] @ ''s2'' @ [CHR 0x09] @ ''4'' @ [CHR 0x09] @ ''TTGA'',
      edge_line]"

text \<open>A reference directory whose only file is the reference of another gap.\<close>

definition reference_args :: args where
  "reference_args = default_args\<lparr>refDir := Some [(''s3+_s4+.fasta'', True)]\<rparr>"

section \<open>Properties\<close>

subsection \<open>Evaluation of the examples\<close>

lemmas python_eval =
  py_in_def sublist_code(3) last_token_def strand_of_def re_match_def
  pattern_ref_def pattern_flank_A_def pattern_flank_BA_def

lemmas scorer_eval =
  accepted_def accept_ref_def accept_flank_def description_ref_def description_flank_def
  quality_ref_def quality_ext_left_def quality_ext_right_def quality_revcomp_def
  ref_row_matches_def revcomp_row_matches_def

lemmas sweep_eval =
  sweep_def initial_state_def evaluate_def locate_reference_def read_stats_def stop_test_def
  after_a_loop_def Let_def

lemmas example_eval =
  default_args_def example_gap_def example_gap_line_def fwd_record_def rev_record_def
  ref_rows_of_def qry_rows_of_def

lemmas main_eval =
  main_try_def gaps_def segments_def record_type_def header_line_def py_slice_from_def
  example_gfa_def no_gap_gfa_def edge_line_def update_gfa_with_solution_def

subsection \<open>Acceptance in flank mode\<close>

lemma re_match_flank_A:
  "re_match pattern_flank_A (''Quality '' @ [l, r, s]) \<longleftrightarrow>
     l = CHR ''A'' \<and> (r = CHR ''A'' \<or> r = CHR ''B'') \<and> (s = CHR ''A'' \<or> s = CHR ''B'')"
  by (auto simp: re_match_def pattern_flank_A_def)

lemma re_match_flank_BA:
  "re_match pattern_flank_BA (''Quality '' @ [l, r, s]) \<longleftrightarrow>
     l = CHR ''B'' \<and> r = CHR ''A'' \<and> (s = CHR ''A'' \<or> s = CHR ''B'')"
  by (auto simp: re_match_def pattern_flank_BA_def)

lemma accept_flank_composite:
  "accept_flank margin sq (''Quality '' @ [l, r, s]) \<longleftrightarrow>
     2 * margin < int (length sq) \<and>
     ((l = CHR ''A'' \<and> (r = CHR ''A'' \<or> r = CHR ''B'') \<and> (s = CHR ''A'' \<or> s = CHR ''B'')) \<or>
      (l = CHR ''B'' \<and> r = CHR ''A'' \<and> (s = CHR ''A'' \<or> s = CHR ''B'')))"
  unfolding accept_flank_def re_match_flank_A re_match_flank_BA by blast

text \<open>
  Claim C3. In flank mode, that is with no reference directory, let the least grade of
  the candidate's rows on the left flank be the character \<open>l\<close>, the one on the right flank
  \<open>rg\<close>, and the one of its self alignment \<open>s\<close>, so that the composite grade of line 461
  is the three characters \<open>l\<close>, \<open>rg\<close>, \<open>s\<close>. Then the candidate is accepted if and only if
  its sequence is longer than twice the extension and either \<open>l\<close> is A with \<open>rg\<close> and \<open>s\<close>
  in A, B, or \<open>l\<close> is B, \<open>rg\<close> is A and \<open>s\<close> is in A, B.
\<close>

theorem C3_flank_acceptance:
  assumes "refDir ar = None"
    and "min_grade (quality_ext_left (left_name g) (rec_id r) ref_rows) = [l]"
    and "min_grade (quality_ext_right (left_name g) (right_name g) (rec_id r) ref_rows) = [rg]"
    and "min_grade (quality_revcomp (rec_id r) qry_rows) = [s]"
  shows "accepted ar g ref_rows qry_rows r \<longleftrightarrow>
     2 * ext ar < int (length (rec_seq r)) \<and>
     ((l = CHR ''A'' \<and> (rg = CHR ''A'' \<or> rg = CHR ''B'') \<and> (s = CHR ''A'' \<or> s = CHR ''B'')) \<or>
      (l = CHR ''B'' \<and> rg = CHR ''A'' \<and> (s = CHR ''A'' \<or> s = CHR ''B'')))"
proof -
  have d: "description_flank (left_name g) (right_name g) (rec_id r) ref_rows qry_rows =
      ''Quality '' @ [l, rg, s]"
    using assms(2-4) by (simp add: description_flank_def)
  show ?thesis
    unfolding accepted_def d accept_flank_def re_match_flank_A re_match_flank_BA
    using assms(1) by auto
qed

text \<open>
  The truth table of the spec, for the forward candidate of 1001 bases and the default
  extension of 500, with statistics rows that give the three grades: AAA, ABA, BAA and
  BAB are accepted, BBA and ACA are rejected.
\<close>

lemma grades_of_example:
  "min_grade (quality_ext_left (left_name example_gap) (rec_id fwd_record)
      (graded_ref_rows [l] [rg])) = [l] \<and>
   min_grade (quality_ext_right (left_name example_gap) (right_name example_gap) (rec_id fwd_record)
      (graded_ref_rows [l] [rg])) = [rg] \<and>
   min_grade (quality_revcomp (rec_id fwd_record) (qry_rows_of ''fwd'' [s])) = [s]"
  by (simp add: python_eval scorer_eval example_eval graded_ref_rows_def)

theorem C3_flank_acceptance_witness:
  "refDir default_args = None \<and>
   accepted default_args example_gap (graded_ref_rows ''A'' ''A'') (qry_rows_of ''fwd'' ''A'') fwd_record \<and>
   accepted default_args example_gap (graded_ref_rows ''A'' ''B'') (qry_rows_of ''fwd'' ''A'') fwd_record \<and>
   accepted default_args example_gap (graded_ref_rows ''B'' ''A'') (qry_rows_of ''fwd'' ''A'') fwd_record \<and>
   accepted default_args example_gap (graded_ref_rows ''B'' ''A'') (qry_rows_of ''fwd'' ''B'') fwd_record \<and>
   \<not> accepted default_args example_gap (graded_ref_rows ''B'' ''B'') (qry_rows_of ''fwd'' ''A'') fwd_record \<and>
   \<not> accepted default_args example_gap (graded_ref_rows ''A'' ''C'') (qry_rows_of ''fwd'' ''A'') fwd_record"
proof -
  have n: "refDir default_args = None" by (simp add: default_args_def)
  have t: "accepted default_args example_gap (graded_ref_rows [l] [rg])
             (qry_rows_of ''fwd'' [s]) fwd_record \<longleftrightarrow>
           ((l = CHR ''A'' \<and> (rg = CHR ''A'' \<or> rg = CHR ''B'') \<and> (s = CHR ''A'' \<or> s = CHR ''B'')) \<or>
            (l = CHR ''B'' \<and> rg = CHR ''A'' \<and> (s = CHR ''A'' \<or> s = CHR ''B'')))" for l rg s
  proof -
    note g = grades_of_example [of l rg s]
    from C3_flank_acceptance [OF n g[THEN conjunct1] g[THEN conjunct2, THEN conjunct1]
           g[THEN conjunct2, THEN conjunct2]]
    show ?thesis by (simp add: default_args_def fwd_record_def)
  qed
  show ?thesis by (simp only: n t) simp
qed

subsection \<open>The union of the barcodes\<close>

lemma count_barcode_keys:
  "map fst (count_barcode b occ) =
     (if b \<in> set (map fst occ) then map fst occ else map fst occ @ [b])"
  by (induction occ) (auto simp: rev_image_eqI)

lemma count_barcode_distinct:
  "distinct (map fst occ) \<Longrightarrow> distinct (map fst (count_barcode b occ))"
  by (simp add: count_barcode_keys)

lemma count_barcode_map_of:
  "map_of (count_barcode b occ) =
     (map_of occ)(b \<mapsto> (case map_of occ b of None \<Rightarrow> 1 | Some n \<Rightarrow> n + 1))"
  by (induction occ) (auto simp: fun_eq_iff)

lemma extract_barcodes_distinct:
  "distinct (map fst occ) \<Longrightarrow> distinct (map fst (extract_barcodes region occ))"
  unfolding extract_barcodes_def
  by (induction region arbitrary: occ) (auto simp: count_barcode_distinct)

lemma extract_barcodes_map_of:
  "map_of (extract_barcodes region occ) b =
     (if b \<in> set region \<or> map_of occ b \<noteq> None
      then Some (count_list region b + (case map_of occ b of None \<Rightarrow> 0 | Some n \<Rightarrow> n))
      else None)"
  unfolding extract_barcodes_def
proof (induction region arbitrary: occ)
  case Nil
  then show ?case by auto
next
  case (Cons x region)
  show ?case
    by (auto simp: Cons count_barcode_map_of split: option.splits)
qed

lemma union_barcodes_iff:
  "distinct (map fst occ) \<Longrightarrow>
   b \<in> set (union_barcodes thr occ) \<longleftrightarrow> (\<exists>n. map_of occ b = Some n \<and> thr \<le> int n)"
  unfolding union_barcodes_def by force

text \<open>
  Claim C9. A barcode observed on the left or the right region is written to the union
  file if and only if the number of its observations on both regions together is at
  least the frequency threshold.
\<close>

theorem C9_union_keeps_frequent_barcodes:
  assumes "b \<in> set left \<union> set right"
  shows "b \<in> set (union_barcodes thr (extract_barcodes right (extract_barcodes left []))) \<longleftrightarrow>
         thr \<le> int (count_list left b + count_list right b)"
proof -
  have d: "distinct (map fst (extract_barcodes right (extract_barcodes left [])))"
    by (simp add: extract_barcodes_distinct)
  show ?thesis using assms
    unfolding union_barcodes_iff[OF d]
    by (auto simp: extract_barcodes_map_of)
qed

text \<open>
  The example of the spec, threshold 2: a barcode seen three times on the left and once
  on the right is kept, a barcode seen once on the left only is dropped.
\<close>

theorem C9_union_keeps_frequent_barcodes_witness:
  "''b1'' \<in> set [''b1'', ''b2'', ''b1'', ''b1''] \<union> set [''b1''] \<and>
   ''b2'' \<in> set [''b1'', ''b2'', ''b1'', ''b1''] \<union> set [''b1''] \<and>
   ''b1'' \<in> set (union_barcodes 2
      (extract_barcodes [''b1''] (extract_barcodes [''b1'', ''b2'', ''b1'', ''b1''] []))) \<and>
   ''b2'' \<notin> set (union_barcodes 2
      (extract_barcodes [''b1''] (extract_barcodes [''b1'', ''b2'', ''b1'', ''b1''] [])))"
proof -
  have m1: "''b1'' \<in> set [''b1'', ''b2'', ''b1'', ''b1''] \<union> set [''b1'']" by simp
  have m2: "''b2'' \<in> set [''b1'', ''b2'', ''b1'', ''b1''] \<union> set [''b1'']" by simp
  show ?thesis
    using m1 m2 C9_union_keeps_frequent_barcodes [OF m1, of 2]
      C9_union_keeps_frequent_barcodes [OF m2, of 2]
    by simp
qed

subsection \<open>The number of reads in the summary\<close>

declare bit_length.simps [simp del]

lemma bit_length_le: "n < 2 ^ k \<Longrightarrow> bit_length n \<le> k"
proof (induction k arbitrary: n)
  case 0
  then show ?case by (simp add: bit_length.simps)
next
  case (Suc k)
  have "n div 2 < 2 ^ k" using Suc.prems by auto
  then have "bit_length (n div 2) \<le> k" by (rule Suc.IH)
  then show ?case by (subst bit_length.simps) simp
qed

lemma quarter_not_int:
  assumes "n mod 4 \<noteq> 0"
  shows "(of_nat n :: rat) / 4 \<notin> \<int>"
proof
  assume "(of_nat n :: rat) / 4 \<in> \<int>"
  then obtain z :: int where z: "(of_nat n :: rat) / 4 = of_int z" by (auto elim: Ints_cases)
  then have "(of_nat n :: rat) = of_int (4 * z)" by simp
  then have "(of_int (int n) :: rat) = of_int (4 * z)" by simp
  then have "int n = 4 * z" by (simp only: of_int_eq_iff)
  then have "n mod 4 = 0" by presburger
  with assms show False by simp
qed

lemma bit_length_2_54_1: "bit_length 18014398509481985 = 55"
  by (simp add: bit_length.simps)

text \<open>
  From \<open>2 ^ 53\<close> lines on the float is rounded: for \<open>2 ^ 54 + 1\<close> lines the quotient lies
  between two neighbouring floats that are both integers, and the division returns
  \<open>2 ^ 52\<close>. A file of \<open>2 ^ 53\<close> lines holds at least 8 PiB, which line 230 would have to
  read in full, so the counts below \<open>2 ^ 53\<close> are the counts of the files the script can
  read.
\<close>

lemma rbxu_of_above_2_53:
  "(18014398509481985::nat) = 2 ^ 54 + 1 \<and> (18014398509481985::nat) mod 4 \<noteq> 0 \<and>
   rbxu_of 18014398509481985 = 2 ^ 52 \<and> rbxu_of 18014398509481985 \<in> \<int>"
proof -
  have v: "rbxu_of 18014398509481985 = 4503599627370496"
    by (simp add: rbxu_of_def truediv_pow2_def bit_length_2_54_1 round_half_even_def Let_def)
  show ?thesis unfolding v by simp
qed

text \<open>
  Claim C10. The number of reads of the summary is the number of lines of the union
  reads file divided by 4 with true division, not with integer division: for every
  reads file the script can read, that is of fewer than \<open>2 ^ 53\<close> lines, \<^verbatim>\<open>rbxu\<close> is
  exactly the quotient, and it is not integral when the number of lines is not a
  multiple of 4.
\<close>

theorem C10_true_division_below_2_53:
  assumes "n < 2 ^ 53"
  shows "rbxu_of n = of_nat n / 4 \<and> (n mod 4 \<noteq> 0 \<longrightarrow> rbxu_of n \<notin> \<int>)"
proof -
  have "bit_length n \<le> 53" using assms by (rule bit_length_le)
  then have e: "rbxu_of n = of_nat n / 4" by (simp add: rbxu_of_def truediv_pow2_def)
  show ?thesis unfolding e using quarter_not_int by blast
qed

theorem C10_true_division_below_2_53_witness:
  "(10::nat) < 2 ^ 53 \<and> rbxu_of 10 = 5 / 2 \<and> rbxu_of 10 \<notin> \<int>"
  using C10_true_division_below_2_53 [of 10] by simp

subsection \<open>One pair of the sweep\<close>

lemma locate_reference_Inr:
  "locate_reference ar g st = Inr (p, st1) \<Longrightarrow> st1 = st\<lparr>ref_file := Some p\<rparr>"
  by (auto simp: locate_reference_def split: option.splits)

lemma read_stats_Inr:
  assumes "read_stats ar g k recs st = Inr st3"
  shows "st3 = st\<lparr>stats := Some False\<rparr> \<or>
         (\<exists>pk pa rr qq sols outs.
            prefix_var st = Some (pk, pa) \<and> stats_files g pk pa = (Some rr, Some qq) \<and>
            score_records ar g k rr qq recs ([], []) = Inr (sols, outs) \<and>
            st3 = st\<lparr>stats := Some True, solutions := Some sols, output_for_gfa := Some outs\<rparr>)"
  using assms by (auto simp: read_stats_def split: option.splits prod.splits sum.splits)

lemma score_records_Inr:
  "score_records ar g k rr qq recs (sols, outs) = Inr (sols', outs') \<Longrightarrow>
     sols' = sols @ map (check_of ar g rr qq) recs \<and>
     outs' = outs @ map (\<lambda>r. get_output_for_gfa g r k) (filter (accepted ar g rr qq) recs)"
proof (induction recs arbitrary: sols outs)
  case Nil
  then show ?case by simp
next
  case (Cons r recs)
  obtain c where c: "strand_of (rec_id r) = Inr c"
    using Cons.prems by (auto split: sum.splits)
  show ?case
  proof (cases "accepted ar g rr qq r")
    case True
    with Cons.prems c have
      "score_records ar g k rr qq recs
         (sols @ [''True_'' @ [c]], outs @ [get_output_for_gfa g r k]) = Inr (sols', outs')"
      by simp
    from Cons.IH[OF this] show ?thesis using True c by (simp add: check_of_def)
  next
    case False
    with Cons.prems c have
      "score_records ar g k rr qq recs (sols @ [''False_'' @ [c]], outs) = Inr (sols', outs')"
      by simp
    from Cons.IH[OF this] show ?thesis using False c by (simp add: check_of_def)
  qed
qed

lemma check_of_True:
  "check_of ar g rr qq r = ''True_'' @ [c] \<longleftrightarrow>
     accepted ar g rr qq r \<and> strand_of (rec_id r) = Inr c"
  by (auto simp: check_of_def split: sum.splits)

lemma evaluate_cases:
  assumes "evaluate ar g k a st = (fl, st')"
  shows "mtg_calls st' = mtg_calls st @ [(k, a)] \<and> a_var st' = a_var st \<and>
    ((insertions g k a = None \<and> fl = Raised FileNotFoundError) \<or>
     (\<exists>recs. insertions g k a = Some (0, recs) \<and> fl = Next \<and>
        output_for_gfa st' = Some [] \<and> solution st' = Some False \<and>
        solutions st' = solutions st) \<or>
     (\<exists>e n recs. insertions g k a = Some (n, recs) \<and> 0 < n \<and> fl = Raised e) \<or>
     (\<exists>n recs. insertions g k a = Some (n, recs) \<and> 0 < n \<and> fl = Next \<and>
        stats st' = Some False \<and> solution st' = Some False \<and>
        output_for_gfa st' = output_for_gfa st \<and> solutions st' = solutions st) \<or>
     (\<exists>n recs pk pa rr qq sols outs. insertions g k a = Some (n, recs) \<and> 0 < n \<and>
        prefix_var st' = Some (pk, pa) \<and> stats_files g pk pa = (Some rr, Some qq) \<and>
        score_records ar g k rr qq recs ([], []) = Inr (sols, outs) \<and>
        stats st' = Some True \<and> solutions st' = Some sols \<and> output_for_gfa st' = Some outs \<and>
        ((fl = Break \<and> solution st' = Some True \<and> ''True_2'' \<in> set sols) \<or>
         (fl = Next \<and> solution st' = Some False \<and> ''True_2'' \<notin> set sols))))"
proof (cases "insertions g k a")
  case None
  with assms show ?thesis by (auto simp: evaluate_def)
next
  case (Some nr)
  obtain n recs where nr: "nr = (n, recs)" by (cases nr)
  show ?thesis
  proof (cases "0 < n")
    case False
    with assms Some nr show ?thesis by (auto simp: evaluate_def)
  next
    case True
    let ?st = "st\<lparr>mtg_calls := mtg_calls st @ [(k, a)]\<rparr>"
    show ?thesis
    proof (cases "locate_reference ar g ?st")
      case (Inl e)
      with assms Some nr True show ?thesis by (auto simp: evaluate_def)
    next
      case (Inr pst)
      obtain p st1 where pst: "pst = (p, st1)" by (cases pst)
      have st1: "st1 = ?st\<lparr>ref_file := Some p\<rparr>"
        using Inr pst by (simp add: locate_reference_Inr)
      let ?st2 = "if \<not> isfile p then st1 else st1\<lparr>prefix_var := Some (k, a)\<rparr>"
      show ?thesis
      proof (cases "read_stats ar g k recs ?st2")
        case (Inl e)
        with assms Some nr True Inr pst st1 show ?thesis
          by (auto simp: evaluate_def Let_def)
      next
        case rs: (Inr st3)
        from read_stats_Inr[OF rs] show ?thesis
        proof
          assume a3: "st3 = ?st2\<lparr>stats := Some False\<rparr>"
          with assms Some nr True Inr pst st1 rs show ?thesis
            by (auto simp: evaluate_def Let_def stop_test_def)
        next
          assume "\<exists>pk pa rr qq sols outs.
            prefix_var ?st2 = Some (pk, pa) \<and> stats_files g pk pa = (Some rr, Some qq) \<and>
            score_records ar g k rr qq recs ([], []) = Inr (sols, outs) \<and>
            st3 = ?st2\<lparr>stats := Some True, solutions := Some sols, output_for_gfa := Some outs\<rparr>"
          then obtain pk pa rr qq sols outs where
            pf: "prefix_var ?st2 = Some (pk, pa)" "stats_files g pk pa = (Some rr, Some qq)" and
            sc: "score_records ar g k rr qq recs ([], []) = Inr (sols, outs)" and
            a3: "st3 = ?st2\<lparr>stats := Some True, solutions := Some sols, output_for_gfa := Some outs\<rparr>"
            by blast
          have stop: "stop_test st3 = Inr (''True_2'' \<in> set sols)"
            by (simp add: a3 stop_test_def)
          show ?thesis
          proof (cases "''True_2'' \<in> set sols")
            case t: True
            with assms Some nr True Inr pst st1 rs stop sc a3 pf show ?thesis
              by (auto simp: evaluate_def Let_def)
          next
            case f: False
            with assms Some nr True Inr pst st1 rs stop sc a3 pf show ?thesis
              by (auto simp: evaluate_def Let_def)
          qed
        qed
      qed
    qed
  qed
qed


lemma True_in_checks:
  "''True_'' @ [c] \<in> set (map (check_of ar g rr qq) recs) \<longleftrightarrow>
     (\<exists>r\<in>set recs. strand_of (rec_id r) = Inr c \<and> accepted ar g rr qq r)"
proof
  assume "''True_'' @ [c] \<in> set (map (check_of ar g rr qq) recs)"
  then obtain r where "r \<in> set recs" "check_of ar g rr qq r = ''True_'' @ [c]" by auto
  then show "\<exists>r\<in>set recs. strand_of (rec_id r) = Inr c \<and> accepted ar g rr qq r"
    by (auto simp only: check_of_True)
next
  assume "\<exists>r\<in>set recs. strand_of (rec_id r) = Inr c \<and> accepted ar g rr qq r"
  then obtain r where "r \<in> set recs" "check_of ar g rr qq r = ''True_'' @ [c]"
    by (auto simp only: check_of_True)
  then show "''True_'' @ [c] \<in> set (map (check_of ar g rr qq) recs)"
    by (metis image_eqI list.set_map)
qed

text \<open>
  Claim C2, as stated: once a forward candidate is accepted at some pair, the forward
  flag is still set at every later pair of the same gap. It fails: for \<open>k = 51\<close> the
  forward candidate of the pair (51, 3) is accepted, and after the pair (51, 2), whose only
  candidate is rejected, \<^verbatim>\<open>solutions\<close> is \<^verbatim>\<open>["False_1"]\<close> and the flag is gone.
\<close>

theorem C2_counterexample:
  "forward_flag (snd (a_loop default_args forward_then_rejected_gap 51 [3] initial_state)) \<and>
   fst (a_loop default_args forward_then_rejected_gap 51 [3, 2] initial_state) = Next \<and>
   mtg_calls (snd (a_loop default_args forward_then_rejected_gap 51 [3, 2] initial_state)) =
     [(51, 3), (51, 2)] \<and>
   solutions (snd (a_loop default_args forward_then_rejected_gap 51 [3, 2] initial_state)) =
     Some [''False_1''] \<and>
   \<not> forward_flag (snd (a_loop default_args forward_then_rejected_gap 51 [3, 2] initial_state))"
  by (simp add: python_eval scorer_eval sweep_eval example_eval forward_then_rejected_gap_def
        forward_flag_def)

text \<open>
  Claim C2, amended. The strand state belongs to one pair. A pair whose insertions file
  is empty, or for which a statistics file is missing, leaves \<^verbatim>\<open>solutions\<close> as it was.
  A pair that has candidates and both statistics files rebuilds the list from empty:
  after it the forward flag is set if and only if a candidate of this very pair whose
  strand is 1 was accepted, and likewise the reverse flag for strand 2, whatever was
  accepted at earlier pairs.
\<close>

theorem C2_strand_state_is_rebuilt_at_every_pair:
  assumes "evaluate ar g k a st = (fl, st')" and "fl = Next \<or> fl = Break"
    and "insertions g k a = Some (n, recs)"
  shows "(n = 0 \<or> stats st' = Some False \<longrightarrow> solutions st' = solutions st) \<and>
         (0 < n \<and> stats st' = Some True \<longrightarrow>
            (\<exists>pk pa rr qq. prefix_var st' = Some (pk, pa) \<and>
               stats_files g pk pa = (Some rr, Some qq) \<and>
               (forward_flag st' \<longleftrightarrow>
                  (\<exists>r\<in>set recs. strand_of (rec_id r) = Inr (CHR ''1'') \<and> accepted ar g rr qq r)) \<and>
               (reverse_flag st' \<longleftrightarrow>
                  (\<exists>r\<in>set recs. strand_of (rec_id r) = Inr (CHR ''2'') \<and> accepted ar g rr qq r))))"
proof -
  from evaluate_cases[OF assms(1)] assms(2,3) consider
    (empty) "n = 0" "solutions st' = solutions st" |
    (nostats) "0 < n" "stats st' = Some False" "solutions st' = solutions st" |
    (scored) pk pa rr qq sols outs where "0 < n" "stats st' = Some True"
      "prefix_var st' = Some (pk, pa)" "stats_files g pk pa = (Some rr, Some qq)"
      "score_records ar g k rr qq recs ([], []) = Inr (sols, outs)" "solutions st' = Some sols"
    by auto
  then show ?thesis
  proof cases
    case empty
    then show ?thesis by simp
  next
    case nostats
    then show ?thesis by simp
  next
    case scored
    from score_records_Inr[OF scored(5)] have s: "sols = map (check_of ar g rr qq) recs" by simp
    have f: "forward_flag st' \<longleftrightarrow>
        (\<exists>r\<in>set recs. strand_of (rec_id r) = Inr (CHR ''1'') \<and> accepted ar g rr qq r)"
      using True_in_checks[of "CHR ''1''" ar g rr qq recs]
      by (simp add: forward_flag_def scored(6) s)
    have r: "reverse_flag st' \<longleftrightarrow>
        (\<exists>r\<in>set recs. strand_of (rec_id r) = Inr (CHR ''2'') \<and> accepted ar g rr qq r)"
      using True_in_checks[of "CHR ''2''" ar g rr qq recs]
      by (simp add: reverse_flag_def scored(6) s)
    have "\<exists>pk pa rr qq. prefix_var st' = Some (pk, pa) \<and>
               stats_files g pk pa = (Some rr, Some qq) \<and>
               (forward_flag st' \<longleftrightarrow>
                  (\<exists>r\<in>set recs. strand_of (rec_id r) = Inr (CHR ''1'') \<and> accepted ar g rr qq r)) \<and>
               (reverse_flag st' \<longleftrightarrow>
                  (\<exists>r\<in>set recs. strand_of (rec_id r) = Inr (CHR ''2'') \<and> accepted ar g rr qq r))"
      by (rule exI[of _ pk], rule exI[of _ pa], rule exI[of _ rr], rule exI[of _ qq])
         (simp add: scored(3,4) f r)
    with scored(1,2) show ?thesis by simp
  qed
qed

text \<open>
  At the pair (51, 3) of the gap with one accepted forward candidate, from the initial
  state.
\<close>

theorem C2_strand_state_is_rebuilt_at_every_pair_witness:
  "fst (evaluate default_args forward_only_gap 51 3 initial_state) = Next \<and>
   insertions forward_only_gap 51 3 = Some (1100, [fwd_record]) \<and>
   stats (snd (evaluate default_args forward_only_gap 51 3 initial_state)) = Some True \<and>
   (\<exists>pk pa rr qq.
      prefix_var (snd (evaluate default_args forward_only_gap 51 3 initial_state)) = Some (pk, pa) \<and>
      stats_files forward_only_gap pk pa = (Some rr, Some qq) \<and>
      (forward_flag (snd (evaluate default_args forward_only_gap 51 3 initial_state)) \<longleftrightarrow>
         (\<exists>r\<in>set [fwd_record]. strand_of (rec_id r) = Inr (CHR ''1'') \<and>
             accepted default_args forward_only_gap rr qq r)) \<and>
      (reverse_flag (snd (evaluate default_args forward_only_gap 51 3 initial_state)) \<longleftrightarrow>
         (\<exists>r\<in>set [fwd_record]. strand_of (rec_id r) = Inr (CHR ''2'') \<and>
             accepted default_args forward_only_gap rr qq r)))"
proof -
  let ?r = "evaluate default_args forward_only_gap 51 3 initial_state"
  have f: "fst ?r = Next"
    by (simp add: python_eval scorer_eval sweep_eval example_eval forward_only_gap_def)
  have e: "?r = (Next, snd ?r)" using f by (cases ?r) simp
  have i: "insertions forward_only_gap 51 3 = Some (1100, [fwd_record])"
    by (simp add: forward_only_gap_def example_gap_def)
  have s: "stats (snd ?r) = Some True"
    by (simp add: python_eval scorer_eval sweep_eval example_eval forward_only_gap_def)
  from C2_strand_state_is_rebuilt_at_every_pair [OF e _ i] s f i show ?thesis by simp
qed

text \<open>
  Claim C1: with the force flag unset the sweep stops after a pair exactly when both
  strands are accepted, and goes on while only one strand is. The code stops as soon as
  the pair has an accepted reverse candidate: for the gap whose only candidate is a
  reverse one at the pair (51, 3), \<^verbatim>\<open>mtg_fill\<close> is called once and the sweep is over with
  no forward candidate accepted, while for the gap whose only candidate is a forward one
  all eight pairs are visited.
\<close>

theorem C1_reverse_strand_alone_stops_the_sweep:
  "fst (sweep default_args reverse_only_gap) = Next \<and>
   mtg_calls (snd (sweep default_args reverse_only_gap)) = [(51, 3)] \<and>
   solutions (snd (sweep default_args reverse_only_gap)) = Some [''True_2''] \<and>
   \<not> forward_flag (snd (sweep default_args reverse_only_gap)) \<and>
   mtg_calls (snd (sweep default_args forward_only_gap)) =
     [(51, 3), (51, 2), (41, 3), (41, 2), (31, 3), (31, 2), (21, 3), (21, 2)]"
  by (simp add: python_eval scorer_eval sweep_eval example_eval reverse_only_gap_def
        forward_only_gap_def forward_flag_def)

subsection \<open>The outcome of one gap\<close>

text \<open>
  Claim C7: every gap gives the scheduler exactly one outcome, a non-empty list of
  accepted candidates, or the gap line when the sweep ends with no accepted candidate;
  never none. With the default arguments the code breaks this twice. For the gap whose
  forward candidate is accepted at the pair (51, 3), the empty insertions files of the
  later pairs reset \<^verbatim>\<open>output_for_gfa\<close> and the gap line is returned, although the comment
  of lines 514 and 515 says that a good solution for one strand is kept in place of the
  gap line. For a gap whose statistics files are all missing \<^verbatim>\<open>output_for_gfa\<close> is never
  bound, line 516 raises and nothing is returned. And for the k-mer sizes 21, 51 in this
  order the function returns the empty list, on which line 587 raises IndexError.
\<close>

theorem C7_accepted_candidate_is_lost:
  "accepted default_args forward_only_gap (ref_rows_of ''fwd'' ''A'') (qry_rows_of ''fwd'' ''A'')
     fwd_record \<and>
   output_for_gfa (snd (evaluate default_args forward_only_gap 51 3 initial_state)) =
     Some [get_output_for_gfa forward_only_gap fwd_record 51] \<and>
   gapfilling default_args forward_only_gap =
     Inr (summary_of default_args forward_only_gap, [[gap_line forward_only_gap]]) \<and>
   gapfilling default_args no_stats_gap = Inl (UnboundLocalError ''output_for_gfa'') \<and>
   gapfilling (default_args\<lparr>kmer := [21, 51]\<rparr>) example_gap =
     Inr (summary_of (default_args\<lparr>kmer := [21, 51]\<rparr>) example_gap, []) \<and>
   write_results [(summary_of (default_args\<lparr>kmer := [21, 51]\<rparr>) example_gap, [])]
     \<lparr>out_gfa_file = Some [], union_sum = [], success = None, tasks = []\<rparr> = Inl IndexError"
  by (simp add: python_eval scorer_eval sweep_eval example_eval gapfilling_def no_stats_gap_def
        forward_only_gap_def)

subsection \<open>The calls of the assembler\<close>

text \<open>
  Claim C6: for every configured list of k-mer sizes and of abundance thresholds the
  pairs are visited in strictly descending order of \<open>k\<close>, then of \<open>a\<close>, and none twice.
  The comments of lines 244 and 273 say that the loops start with the highest value, and
  line 513 takes the least values for the last pair, but the lists are iterated as they
  were given: the k-mer sizes 21, 51 are visited in this order, and for 51, 21, 51 two
  pairs are visited twice. The default lists are visited in descending order.
\<close>

theorem C6_lists_are_visited_as_given:
  "mtg_calls (snd (sweep (default_args\<lparr>kmer := [21, 51]\<rparr>) example_gap)) =
     [(21, 3), (21, 2), (51, 3), (51, 2)] \<and>
   \<not> visits_descending (mtg_calls (snd (sweep (default_args\<lparr>kmer := [21, 51]\<rparr>) example_gap))) \<and>
   mtg_calls (snd (sweep (default_args\<lparr>kmer := [51, 21, 51]\<rparr>) example_gap)) =
     [(51, 3), (51, 2), (21, 3), (21, 2), (51, 3), (51, 2)] \<and>
   \<not> distinct (mtg_calls (snd (sweep (default_args\<lparr>kmer := [51, 21, 51]\<rparr>) example_gap))) \<and>
   mtg_calls (snd (sweep default_args example_gap)) =
     [(51, 3), (51, 2), (41, 3), (41, 2), (31, 3), (31, 2), (21, 3), (21, 2)] \<and>
   visits_descending (mtg_calls (snd (sweep default_args example_gap)))"
  by (simp add: sweep_eval example_eval visits_descending_def)

subsection \<open>Exceptions\<close>











text \<open>
  Claim C8: in reference mode, when no file of the reference directory matches the gap
  label, the evaluation falls back to the flanking contigs and the gap goes on. The code
  never assigns \<^verbatim>\<open>ref_file\<close> then, line 315 raises UnboundLocalError at the first pair
  that has candidates, and the run exits with code 1.
\<close>

theorem C8_missing_reference_raises:
  "refDir reference_args = Some [(''s3+_s4+.fasta'', True)] \<and>
   \<not> py_in (gap_label reverse_only_gap) ''s3+_s4+.fasta'' \<and>
   evaluate reference_args reverse_only_gap 51 3 initial_state =
     (Raised (UnboundLocalError ''ref_file''), initial_state\<lparr>mtg_calls := [(51, 3)]\<rparr>) \<and>
   gapfilling reference_args reverse_only_gap = Inl (UnboundLocalError ''ref_file'') \<and>
   main_try reference_args example_gfa (\<lambda>l. reverse_only_gap) =
     Exit1 (UnboundLocalError ''ref_file'')"
  by (simp add: python_eval sweep_eval example_eval reverse_only_gap_def reference_args_def
        gapfilling_def main_eval)

subsection \<open>A graph without gaps\<close>

text \<open>
  Claim C4: for a graph without gap lines the output file has the content of the input,
  every line that is not a gap line included, and no task is given to the pool. No task
  is given, but without \<^verbatim>\<open>-line\<close> the block of line 554 writes the file again with
  the header and the segments only, so the edge line of the input is lost; with
  \<^verbatim>\<open>-line\<close> the file keeps every line.
\<close>

theorem C4_only_header_and_segments_are_kept:
  "gaps no_gap_gfa = [] \<and> edge_line \<in> set no_gap_gfa \<and>
   main_try default_args no_gap_gfa (\<lambda>l. example_gap) =
     Completed \<lparr>out_gfa_file = Some (Line header_line # map Line (segments no_gap_gfa)),
                union_sum = [], success = None, tasks = []\<rparr> \<and>
   Line edge_line \<notin> set (Line header_line # map Line (segments no_gap_gfa)) \<and>
   main_try (default_args\<lparr>line := Some 1\<rparr>) no_gap_gfa (\<lambda>l. example_gap) =
     Completed \<lparr>out_gfa_file = Some (map Line no_gap_gfa), union_sum = [],
                success = None, tasks = []\<rparr>"
  by (simp add: main_eval default_args_def)

end
